theory Spec2Isabelle
  imports Complex_Main
begin

section \<open>JavaScript values read from the state documents\<close>

text \<open>
  The extension reads two JSON documents. A parsed document is a JavaScript value.
  Numbers are modelled as exact reals; a numeric literal too large for a double parses to
  plus or minus Infinity, which is the only non-finite number \<open>JSON.parse\<close> can produce.
  An object keeps its members in document order; on a repeated key the last one wins.
\<close>

datatype json =
    JNull
  | JBool bool
  | JNum real
  | JInfinity bool
  | JStr string
  | JArr "json list"
  | JObj "(string \<times> json) list"

datatype js_error = IOError | SyntaxError | TypeError

text \<open>
  What \<open>load_contents\<close>, \<open>TextDecoder.decode\<close> and \<open>JSON.parse\<close> make of a file:
  the read raises, the read returns \<open>ok = false\<close>, the parser raises, or a value is
  obtained. The decoder is created without the \<open>fatal\<close> option, so it never raises: bytes
  that are not valid UTF-8 become replacement characters and the resulting text is parsed
  like any other, ending in one of the last two cases.
\<close>

datatype document = Unreadable | NotOk | Malformed | Parsed json

definition read_json :: "document \<Rightarrow> js_error + json option" where
  "read_json doc =
     (case doc of
        Unreadable \<Rightarrow> Inl IOError
      | NotOk \<Rightarrow> Inr None
      | Malformed \<Rightarrow> Inl SyntaxError
      | Parsed data \<Rightarrow> Inr (Some data))"

text \<open>Property access \<open>data.key\<close>: \<open>None\<close> is \<open>undefined\<close>; reading a property of \<open>null\<close> raises.\<close>

fun member :: "json \<Rightarrow> string \<Rightarrow> json option" where
  "member (JObj kvs) k = map_of (rev kvs) k"
| "member _ k = None"

fun get_prop :: "json \<Rightarrow> string \<Rightarrow> js_error + json option" where
  "get_prop JNull k = Inl TypeError"
| "get_prop v k = Inr (member v k)"

text \<open>\<open>Boolean(v)\<close> and the truthiness test of \<open>if\<close>, \<open>&&\<close> and \<open>?:\<close>.\<close>

fun truthy :: "json option \<Rightarrow> bool" where
  "truthy None = False"
| "truthy (Some JNull) = False"
| "truthy (Some (JBool b)) = b"
| "truthy (Some (JNum r)) = (r \<noteq> 0)"
| "truthy (Some (JInfinity neg)) = True"
| "truthy (Some (JStr s)) = (s \<noteq> [])"
| "truthy (Some (JArr xs)) = True"
| "truthy (Some (JObj kvs)) = True"

text \<open>Truthiness of a field that holds a number or \<open>null\<close>.\<close>

fun truthy_num :: "real option \<Rightarrow> bool" where
  "truthy_num None = False"
| "truthy_num (Some r) = (r \<noteq> 0)"

text \<open>
  The guard \<open>ts && now - ts ...\<close> used on every timestamp: the age \<open>now - ts\<close> is looked
  at only when the field is truthy.
\<close>

fun age :: "real \<Rightarrow> real option \<Rightarrow> real option" where
  "age now None = None"
| "age now (Some ts) = (if ts \<noteq> 0 then Some (now - ts) else None)"

text \<open>\<open>Number.isFinite(v)\<close>, returning the number when the test succeeds.\<close>

fun finite_number :: "json option \<Rightarrow> real option" where
  "finite_number (Some (JNum r)) = Some r"
| "finite_number _ = None"

fun string_value :: "json option \<Rightarrow> string option" where
  "string_value (Some (JStr s)) = Some s"
| "string_value _ = None"

section \<open>Constants\<close>

definition STATE_FILE :: string where "STATE_FILE = ''overlay.json''"
definition TRAY_FILE :: string where "TRAY_FILE = ''tray.json''"
definition STATE_TMP_FILE :: string where "STATE_TMP_FILE = ''overlay.tmp''"
definition TRAY_TMP_FILE :: string where "TRAY_TMP_FILE = ''tray.tmp''"
definition BAR_COUNT :: nat where "BAR_COUNT = 10"
definition BAR_MAX_HEIGHT :: int where "BAR_MAX_HEIGHT = 26"
definition BAR_MIN_HEIGHT :: int where "BAR_MIN_HEIGHT = 10"
definition BAR_WEIGHTS :: "real list" where
  "BAR_WEIGHTS = [35/100, 55/100, 8/10, 1, 9/10, 9/10, 1, 8/10, 55/100, 35/100]"
definition DOUBLE_CLICK_MS :: real where "DOUBLE_CLICK_MS = 220"
definition SUCCESS_FLASH_MS :: real where "SUCCESS_FLASH_MS = 3000"
definition ERROR_FLASH_MS :: real where "ERROR_FLASH_MS = 4000"
definition STALE_STATE_MS :: real where "STALE_STATE_MS = 5000"

section \<open>Parsing the recording document\<close>

record overlay_doc =
  ol_recording :: bool
  ol_startedAtMs :: "real option"
  ol_level :: real
  ol_updatedAtMs :: "real option"

definition overlay_default :: overlay_doc where
  "overlay_default =
     \<lparr>ol_recording = False, ol_startedAtMs = None, ol_level = 0, ol_updatedAtMs = None\<rparr>"

text \<open>
  The body of the \<open>try\<close> block of \<open>_loadOverlayState\<close>. The only property access that can
  raise is the first one; the later ones read the same value.
\<close>

definition overlay_try :: "document \<Rightarrow> js_error + overlay_doc" where
  "overlay_try doc =
     (case read_json doc of
        Inl e \<Rightarrow> Inl e
      | Inr None \<Rightarrow> Inr overlay_default
      | Inr (Some data) \<Rightarrow>
          (case get_prop data ''recording'' of
             Inl e \<Rightarrow> Inl e
           | Inr r \<Rightarrow>
               Inr \<lparr>ol_recording = truthy r,
                    ol_startedAtMs = finite_number (member data ''started_at_ms''),
                    ol_level =
                      (case finite_number (member data ''level'') of
                         Some l \<Rightarrow> max 0 (min 1 l)
                       | None \<Rightarrow> 0),
                    ol_updatedAtMs = finite_number (member data ''updated_at_ms'')\<rparr>))"

text \<open>The \<open>catch\<close> clause resets all four locals.\<close>

definition overlay_parse :: "document \<Rightarrow> overlay_doc" where
  "overlay_parse doc = (case overlay_try doc of Inl e \<Rightarrow> overlay_default | Inr v \<Rightarrow> v)"

text \<open>
  The staleness override:
  \<open>recording && updatedAtMs && Date.now() - updatedAtMs > STALE_STATE_MS\<close>.
\<close>

definition stale :: "real \<Rightarrow> overlay_doc \<Rightarrow> bool" where
  "stale now v \<longleftrightarrow>
     ol_recording v \<and>
     (case age now (ol_updatedAtMs v) of Some a \<Rightarrow> a > STALE_STATE_MS | None \<Rightarrow> False)"

definition freshen :: "real \<Rightarrow> overlay_doc \<Rightarrow> overlay_doc" where
  "freshen now v =
     (if stale now v
      then v\<lparr>ol_recording := False, ol_startedAtMs := None, ol_level := 0\<rparr>
      else v)"

definition overlay_loaded :: "real \<Rightarrow> document \<Rightarrow> overlay_doc" where
  "overlay_loaded now doc = freshen now (overlay_parse doc)"

section \<open>Parsing the tray document\<close>

record tray_doc =
  tr_recent :: "json list"
  tr_lastTranscriptAtMs :: "real option"
  tr_lastErrorAtMs :: "real option"
  tr_lastError :: "string option"
  tr_hotkeys :: json

definition tray_default :: tray_doc where
  "tray_default =
     \<lparr>tr_recent = [], tr_lastTranscriptAtMs = None, tr_lastErrorAtMs = None,
      tr_lastError = None, tr_hotkeys = JObj []\<rparr>"

text \<open>\<open>typeof v === 'object'\<close> holds for objects, arrays and \<open>null\<close>.\<close>

fun typeof_object :: "json option \<Rightarrow> bool" where
  "typeof_object (Some JNull) = True"
| "typeof_object (Some (JArr xs)) = True"
| "typeof_object (Some (JObj kvs)) = True"
| "typeof_object _ = False"

definition tray_try :: "document \<Rightarrow> js_error + tray_doc" where
  "tray_try doc =
     (case read_json doc of
        Inl e \<Rightarrow> Inl e
      | Inr None \<Rightarrow> Inr tray_default
      | Inr (Some data) \<Rightarrow>
          (case get_prop data ''recent'' of
             Inl e \<Rightarrow> Inl e
           | Inr r \<Rightarrow>
               Inr \<lparr>tr_recent = (case r of Some (JArr items) \<Rightarrow> items | _ \<Rightarrow> []),
                    tr_lastTranscriptAtMs =
                      finite_number (member data ''last_transcript_at_ms''),
                    tr_lastErrorAtMs = finite_number (member data ''last_error_at_ms''),
                    tr_lastError = string_value (member data ''last_error''),
                    tr_hotkeys =
                      (case member data ''hotkeys'' of
                         Some h \<Rightarrow>
                           if truthy (Some h) \<and> typeof_object (Some h) then h else JObj []
                       | None \<Rightarrow> JObj [])\<rparr>))"

definition tray_parse :: "document \<Rightarrow> tray_doc" where
  "tray_parse doc = (case tray_try doc of Inl e \<Rightarrow> tray_default | Inr v \<Rightarrow> v)"

section \<open>The extension object\<close>

text \<open>
  A GLib timeout source, identified by the field that holds its id: the time at which
  \<open>timeout_add\<close> was called and the interval in milliseconds. A field holding no source
  is \<open>None\<close> (the source assigns \<open>null\<close>); source ids are positive, hence truthy.
\<close>

record timer =
  armed_at :: real
  interval :: real

definition timeout_add :: "real \<Rightarrow> real \<Rightarrow> timer" where
  "timeout_add now ms = \<lparr>armed_at = now, interval = ms\<rparr>"

definition due :: "timer \<Rightarrow> real" where
  "due tm = armed_at tm + interval tm"

record icon =
  icon_name :: string
  style_classes :: "string list"

text \<open>
  A menu item label: plain text, or the template \<open>`${label}  (${hotkey})`\<close> with the
  value substituted for \<open>hotkey\<close> kept as it is.
\<close>

datatype label = Plain string | WithHotkey string json

datatype menu_entry = Entry string | Separator

text \<open>
  The fields of the extension that the state files, the timers and the clicks act on.
  \<open>bars\<close> are the heights of the meter bars. \<open>spawned\<close> lists the flags of the commands
  handed to \<open>spawn_command_line_async\<close> and \<open>reads\<close> the \<open>load_contents\<close> calls
  (file name and time), both in order of occurrence.
\<close>

record extension =
  bars :: "int list"
  recording :: bool
  startedAtMs :: "real option"
  level :: real
  levelTarget :: real
  lastTranscriptAtMs :: "real option"
  lastErrorAtMs :: "real option"
  lastError :: "string option"
  trayRecent :: "json list"
  hotkeys :: json
  meterTimerId :: "timer option"
  clockTimerId :: "timer option"
  clickTimerId :: "timer option"
  statusTimerId :: "timer option"
  loadOverlayTimerId :: "timer option"
  loadTrayTimerId :: "timer option"
  overlayVisible :: bool
  timeLabelVisible :: bool
  timeLabelText :: string
  indicatorIcon :: "icon option"
  toggleItem :: "label option"
  openItem :: "label option"
  recentMenu :: "menu_entry list option"
  spawned :: "string list"
  reads :: "(string \<times> real) list"

text \<open>
  A method either returns or raises; in both cases the fields keep what was assigned
  before.
\<close>

datatype outcome = Returned extension | Raised js_error extension

fun state_of :: "outcome \<Rightarrow> extension" where
  "state_of (Returned s) = s"
| "state_of (Raised e s) = s"

fun raised :: "outcome \<Rightarrow> bool" where
  "raised (Returned s) = False"
| "raised (Raised e s) = True"

text \<open>The object as \<open>enable\<close> leaves it before the first two loads.\<close>

definition enabled :: extension where
  "enabled =
     \<lparr>bars = replicate BAR_COUNT BAR_MIN_HEIGHT,
      recording = False, startedAtMs = None, level = 0, levelTarget = 0,
      lastTranscriptAtMs = None, lastErrorAtMs = None, lastError = None,
      trayRecent = [], hotkeys = JObj [],
      meterTimerId = None, clockTimerId = None, clickTimerId = None,
      statusTimerId = None, loadOverlayTimerId = None, loadTrayTimerId = None,
      overlayVisible = False, timeLabelVisible = True, timeLabelText = ''0:00'',
      indicatorIcon =
        Some \<lparr>icon_name = ''audio-input-microphone-symbolic'',
              style_classes = [''system-status-icon'', ''whispr-indicator-icon'']\<rparr>,
      toggleItem = Some (Plain ''Start Recording''),
      openItem = Some (Plain ''Open App''),
      recentMenu = Some [Entry ''No recent transcripts''],
      spawned = [], reads = []\<rparr>"

section \<open>Indicator icon and status timer\<close>

definition remove_style_class_name :: "string \<Rightarrow> icon \<Rightarrow> icon" where
  "remove_style_class_name c ic = ic\<lparr>style_classes := removeAll c (style_classes ic)\<rparr>"

definition add_style_class_name :: "string \<Rightarrow> icon \<Rightarrow> icon" where
  "add_style_class_name c ic =
     (if c \<in> set (style_classes ic) then ic
      else ic\<lparr>style_classes := style_classes ic @ [c]\<rparr>)"

definition clearStatusTimer :: "extension \<Rightarrow> extension" where
  "clearStatusTimer s = (case statusTimerId s of None \<Rightarrow> s | Some tm \<Rightarrow> s\<lparr>statusTimerId := None\<rparr>)"

definition nextDelay :: "real \<Rightarrow> extension \<Rightarrow> real option" where
  "nextDelay now s =
     (case age now (lastErrorAtMs s) of
        Some a \<Rightarrow> Some (ERROR_FLASH_MS - a)
      | None \<Rightarrow>
          (case age now (lastTranscriptAtMs s) of
             Some a \<Rightarrow> Some (SUCCESS_FLASH_MS - a)
           | None \<Rightarrow> None))"

definition scheduleStatusRefresh :: "real \<Rightarrow> extension \<Rightarrow> extension" where
  "scheduleStatusRefresh now s =
     (let s1 = clearStatusTimer s in
      case nextDelay now s1 of
        None \<Rightarrow> s1
      | Some d \<Rightarrow> if d \<le> 0 then s1 else s1\<lparr>statusTimerId := Some (timeout_add now d)\<rparr>)"

definition error_showing :: "real \<Rightarrow> extension \<Rightarrow> bool" where
  "error_showing now s \<longleftrightarrow>
     (case age now (lastErrorAtMs s) of Some a \<Rightarrow> a < ERROR_FLASH_MS | None \<Rightarrow> False)"

definition success_showing :: "real \<Rightarrow> extension \<Rightarrow> bool" where
  "success_showing now s \<longleftrightarrow>
     (case age now (lastTranscriptAtMs s) of Some a \<Rightarrow> a < SUCCESS_FLASH_MS | None \<Rightarrow> False)"

definition updateIndicator :: "real \<Rightarrow> extension \<Rightarrow> extension" where
  "updateIndicator now s =
     (case indicatorIcon s of
        None \<Rightarrow> s
      | Some ic \<Rightarrow>
          let ic0 = remove_style_class_name ''whispr-indicator-error''
                      (remove_style_class_name ''whispr-indicator-success''
                        (remove_style_class_name ''whispr-indicator-recording'' ic))
          in
          if recording s then
            s\<lparr>indicatorIcon :=
                Some (add_style_class_name ''whispr-indicator-recording''
                        (ic0\<lparr>icon_name := ''media-record-symbolic''\<rparr>))\<rparr>
          else if error_showing now s then
            scheduleStatusRefresh now
              (s\<lparr>indicatorIcon :=
                   Some (add_style_class_name ''whispr-indicator-error''
                           (ic0\<lparr>icon_name := ''dialog-warning-symbolic''\<rparr>))\<rparr>)
          else if success_showing now s then
            scheduleStatusRefresh now
              (s\<lparr>indicatorIcon :=
                   Some (add_style_class_name ''whispr-indicator-success''
                           (ic0\<lparr>icon_name := ''emblem-ok-symbolic''\<rparr>))\<rparr>)
          else
            clearStatusTimer
              (s\<lparr>indicatorIcon :=
                   Some (ic0\<lparr>icon_name := ''audio-input-microphone-symbolic''\<rparr>)\<rparr>))"

text \<open>The callback of the status timer.\<close>

definition statusTimeout :: "real \<Rightarrow> extension \<Rightarrow> extension" where
  "statusTimeout now s = updateIndicator now (s\<lparr>statusTimerId := None\<rparr>)"

text \<open>The visual state an icon stands for.\<close>

datatype visual = Idle | Recording | SuccessFlash | ErrorFlash

definition visual_of :: "icon \<Rightarrow> visual" where
  "visual_of ic =
     (if icon_name ic = ''media-record-symbolic'' then Recording
      else if icon_name ic = ''dialog-warning-symbolic'' then ErrorFlash
      else if icon_name ic = ''emblem-ok-symbolic'' then SuccessFlash
      else Idle)"

definition visual_state :: "extension \<Rightarrow> visual option" where
  "visual_state s = map_option visual_of (indicatorIcon s)"

section \<open>Menu\<close>

text \<open>
  Conversion to a string inside a template literal. It raises for an object that has a
  member named \<open>toString\<close> (no member of a parsed document is callable, and the inherited
  \<open>valueOf\<close> returns the object itself), and for an array with such an element; every
  other value converts.
\<close>

fun unprintable :: "json \<Rightarrow> bool" where
  "unprintable (JArr xs) = list_ex unprintable xs"
| "unprintable (JObj kvs) = (map_of (rev kvs) ''toString'' \<noteq> None)"
| "unprintable v = False"

definition item_label :: "string \<Rightarrow> json option \<Rightarrow> js_error + label" where
  "item_label base hotkey =
     (case hotkey of
        Some h \<Rightarrow>
          if truthy (Some h)
          then (if unprintable h then Inl TypeError else Inr (WithHotkey base h))
          else Inr (Plain base)
      | None \<Rightarrow> Inr (Plain base))"

text \<open>The label of one recent transcript; \<open>item.preview\<close> raises when the item is \<open>null\<close>.\<close>

definition recent_label :: "json \<Rightarrow> js_error + string" where
  "recent_label item =
     (case get_prop item ''preview'' of
        Inl e \<Rightarrow> Inl e
      | Inr p \<Rightarrow>
          let txt = (case string_value (member item ''text'') of Some t \<Rightarrow> t | None \<Rightarrow> []);
              preview = (case string_value p of
                           Some pv \<Rightarrow> if length pv > 0 then pv else txt
                         | None \<Rightarrow> txt)
          in Inr (if length preview > 0 then preview else ''Untitled transcript''))"

fun add_recent :: "json list \<Rightarrow> menu_entry list \<Rightarrow> js_error option \<times> menu_entry list" where
  "add_recent [] acc = (None, acc)"
| "add_recent (item # items) acc =
     (case recent_label item of
        Inl e \<Rightarrow> (Some e, acc)
      | Inr l \<Rightarrow> add_recent items (acc @ [Entry l]))"

definition refresh_toggle :: "extension \<Rightarrow> js_error + extension" where
  "refresh_toggle s =
     (case toggleItem s of
        None \<Rightarrow> Inr s
      | Some old \<Rightarrow>
          (case item_label (if recording s then ''Stop Recording'' else ''Start Recording'')
                  (member (hotkeys s) ''record_toggle'') of
             Inl e \<Rightarrow> Inl e
           | Inr l \<Rightarrow> Inr (s\<lparr>toggleItem := Some l\<rparr>)))"

definition refresh_open :: "extension \<Rightarrow> js_error + extension" where
  "refresh_open s =
     (case openItem s of
        None \<Rightarrow> Inr s
      | Some old \<Rightarrow>
          (case item_label ''Open App'' (member (hotkeys s) ''open_app'') of
             Inl e \<Rightarrow> Inl e
           | Inr l \<Rightarrow> Inr (s\<lparr>openItem := Some l\<rparr>)))"

definition refresh_recent :: "extension \<Rightarrow> outcome" where
  "refresh_recent s =
     (case recentMenu s of
        None \<Rightarrow> Returned s
      | Some old \<Rightarrow>
          if length (trayRecent s) = 0 then
            Returned (s\<lparr>recentMenu := Some [Entry ''No recent transcripts'']\<rparr>)
          else
            (case add_recent (trayRecent s) [] of
               (Some e, es) \<Rightarrow> Raised e (s\<lparr>recentMenu := Some es\<rparr>)
             | (None, es) \<Rightarrow>
                 Returned
                   (s\<lparr>recentMenu := Some (es @ [Separator, Entry ''Show All Transcripts''])\<rparr>)))"

definition refreshMenu :: "extension \<Rightarrow> outcome" where
  "refreshMenu s =
     (case refresh_toggle s of
        Inl e \<Rightarrow> Raised e s
      | Inr s1 \<Rightarrow>
          (case refresh_open s1 of
             Inl e \<Rightarrow> Raised e s1
           | Inr s2 \<Rightarrow> refresh_recent s2))"

section \<open>Level meter\<close>

definition startMeter :: "real \<Rightarrow> extension \<Rightarrow> extension" where
  "startMeter now s =
     (case meterTimerId s of
        Some tm \<Rightarrow> s
      | None \<Rightarrow> s\<lparr>meterTimerId := Some (timeout_add now 150)\<rparr>)"

definition stopMeter :: "extension \<Rightarrow> extension" where
  "stopMeter s = (case meterTimerId s of None \<Rightarrow> s | Some tm \<Rightarrow> s\<lparr>meterTimerId := None\<rparr>)"

text \<open>\<open>Math.round\<close> rounds to the nearest integer, halves upwards.\<close>

definition math_round :: "real \<Rightarrow> int" where
  "math_round x = \<lfloor>x + 1 / 2\<rfloor>"

definition smoothing :: "real \<Rightarrow> real" where
  "smoothing delta = (if delta > 0 then 45 / 100 else 2 / 10)"

definition bar_height :: "real \<Rightarrow> nat \<Rightarrow> int" where
  "bar_height clamped index =
     (let weight = BAR_WEIGHTS ! (index mod length BAR_WEIGHTS)
      in math_round (real_of_int BAR_MIN_HEIGHT
                      + real_of_int (BAR_MAX_HEIGHT - BAR_MIN_HEIGHT) * clamped * weight))"

text \<open>
  The callback of the meter timer, run every 150 ms while the timer is installed. The
  level is computed here in exact real arithmetic, where the program computes in binary64:
  there a tick from a level one unit in the last place below the target can round back to
  the same level. What is proved about the tick below, the bounds on the bar heights,
  holds for both, since rounding is monotone and the bounds are representable; how the
  level approaches the target is not stated.
\<close>

definition meterTick :: "extension \<Rightarrow> extension" where
  "meterTick s =
     (let delta = levelTarget s - level s;
          lv = level s + delta * smoothing delta;
          clamped = max 0 (min 1 lv)
      in s\<lparr>level := lv, bars := map (bar_height clamped) [0..<length (bars s)]\<rparr>)"

section \<open>Elapsed-time clock\<close>

fun show_nat :: "nat \<Rightarrow> string" where
  "show_nat n =
     (if n < 10 then [''0123456789'' ! n]
      else show_nat (n div 10) @ [''0123456789'' ! (n mod 10)])"

declare show_nat.simps [simp del]

definition padStart2 :: "string \<Rightarrow> string" where
  "padStart2 str = replicate (2 - length str) (CHR ''0'') @ str"

definition updateClock :: "real \<Rightarrow> extension \<Rightarrow> extension" where
  "updateClock now s =
     (case age now (startedAtMs s) of
        None \<Rightarrow> s
      | Some elapsed \<Rightarrow>
          let elapsedSec = nat (max 0 \<lfloor>elapsed / 1000\<rfloor>);
              minutes = elapsedSec div 60;
              seconds = elapsedSec mod 60
          in s\<lparr>timeLabelText := show_nat minutes @ '':'' @ padStart2 (show_nat seconds)\<rparr>)"

definition startClock :: "real \<Rightarrow> extension \<Rightarrow> extension" where
  "startClock now s =
     (if \<not> truthy_num (startedAtMs s) then s\<lparr>timeLabelText := []\<rparr>
      else
        let s1 = updateClock now s in
        case clockTimerId s1 of
          Some tm \<Rightarrow> s1
        | None \<Rightarrow> s1\<lparr>clockTimerId := Some (timeout_add now 1000)\<rparr>)"

definition stopClock :: "extension \<Rightarrow> extension" where
  "stopClock s = (case clockTimerId s of None \<Rightarrow> s | Some tm \<Rightarrow> s\<lparr>clockTimerId := None\<rparr>)"

section \<open>Showing and hiding the overlay\<close>

text \<open>The placement of the overlay on the monitor has no effect on the fields above.\<close>

definition showOverlay :: "real option \<Rightarrow> real \<Rightarrow> extension \<Rightarrow> outcome" where
  "showOverlay started now s =
     refreshMenu
       (updateIndicator now
         (startClock now
           (startMeter now
             (s\<lparr>recording := True, startedAtMs := started,
                timeLabelVisible := truthy_num started, overlayVisible := True\<rparr>))))"

definition hideOverlay :: "real \<Rightarrow> extension \<Rightarrow> outcome" where
  "hideOverlay now s =
     refreshMenu
       (updateIndicator now
         (stopClock
           (stopMeter
             (s\<lparr>recording := False, startedAtMs := None, timeLabelVisible := False,
                level := 0, levelTarget := 0, overlayVisible := False\<rparr>))))"

section \<open>Loading the two documents\<close>

definition loadOverlayState :: "document \<Rightarrow> real \<Rightarrow> extension \<Rightarrow> outcome" where
  "loadOverlayState doc now s =
     (let v = overlay_loaded now doc;
          s1 = s\<lparr>reads := reads s @ [(STATE_FILE, now)], levelTarget := ol_level v\<rparr>
      in if ol_recording v then showOverlay (ol_startedAtMs v) now s1
         else hideOverlay now s1)"

definition loadTrayState :: "document \<Rightarrow> real \<Rightarrow> extension \<Rightarrow> outcome" where
  "loadTrayState doc now s =
     (let v = tray_parse doc;
          s1 = s\<lparr>reads := reads s @ [(TRAY_FILE, now)],
                 trayRecent := tr_recent v,
                 lastTranscriptAtMs := tr_lastTranscriptAtMs v,
                 lastErrorAtMs := tr_lastErrorAtMs v,
                 lastError := tr_lastError v,
                 hotkeys := tr_hotkeys v\<rparr>
      in case refreshMenu s1 of
           Raised e s2 \<Rightarrow> Raised e s2
         | Returned s2 \<Rightarrow> Returned (updateIndicator now s2))"

section \<open>Change watcher\<close>

definition scheduleLoadOverlay :: "real \<Rightarrow> extension \<Rightarrow> extension" where
  "scheduleLoadOverlay now s =
     (case loadOverlayTimerId s of
        Some tm \<Rightarrow> s
      | None \<Rightarrow> s\<lparr>loadOverlayTimerId := Some (timeout_add now 60)\<rparr>)"

definition scheduleLoadTray :: "real \<Rightarrow> extension \<Rightarrow> extension" where
  "scheduleLoadTray now s =
     (case loadTrayTimerId s of
        Some tm \<Rightarrow> s
      | None \<Rightarrow> s\<lparr>loadTrayTimerId := Some (timeout_add now 120)\<rparr>)"

text \<open>The callbacks of the two load timers.\<close>

definition loadOverlayTimeout :: "document \<Rightarrow> real \<Rightarrow> extension \<Rightarrow> outcome" where
  "loadOverlayTimeout doc now s = loadOverlayState doc now (s\<lparr>loadOverlayTimerId := None\<rparr>)"

definition loadTrayTimeout :: "document \<Rightarrow> real \<Rightarrow> extension \<Rightarrow> outcome" where
  "loadTrayTimeout doc now s = loadTrayState doc now (s\<lparr>loadTrayTimerId := None\<rparr>)"

definition basenames :: "string option \<Rightarrow> string option \<Rightarrow> string list" where
  "basenames file otherFile =
     (case file of Some f \<Rightarrow> [f] | None \<Rightarrow> []) @
     (case otherFile of Some f \<Rightarrow> [f] | None \<Rightarrow> [])"

definition names_overlay :: "string list \<Rightarrow> bool" where
  "names_overlay names = list_ex (\<lambda>name. name = STATE_FILE \<or> name = STATE_TMP_FILE) names"

definition names_tray :: "string list \<Rightarrow> bool" where
  "names_tray names = list_ex (\<lambda>name. name = TRAY_FILE \<or> name = TRAY_TMP_FILE) names"

text \<open>The handler of the directory monitor's \<open>changed\<close> signal.\<close>

definition changed :: "string option \<Rightarrow> string option \<Rightarrow> real \<Rightarrow> extension \<Rightarrow> extension" where
  "changed file otherFile now s =
     (let names = basenames file otherFile;
          s1 = (if names_overlay names then scheduleLoadOverlay now s else s)
      in if names_tray names then scheduleLoadTray now s1 else s1)"

section \<open>Clicks on the indicator\<close>

text \<open>
  The command line is the resolved binary followed by one flag; the flag is what is
  recorded.
\<close>

definition toggleRecording :: "extension \<Rightarrow> extension" where
  "toggleRecording s = s\<lparr>spawned := spawned s @ [''--toggle'']\<rparr>"

definition openApp :: "extension \<Rightarrow> extension" where
  "openApp s = s\<lparr>spawned := spawned s @ [''--show'']\<rparr>"

definition clearClickTimer :: "extension \<Rightarrow> extension" where
  "clearClickTimer s = (case clickTimerId s of None \<Rightarrow> s | Some tm \<Rightarrow> s\<lparr>clickTimerId := None\<rparr>)"

definition handlePrimaryClick :: "real \<Rightarrow> extension \<Rightarrow> extension" where
  "handlePrimaryClick now s =
     (case clickTimerId s of
        Some tm \<Rightarrow> openApp (clearClickTimer s)
      | None \<Rightarrow> s\<lparr>clickTimerId := Some (timeout_add now DOUBLE_CLICK_MS)\<rparr>)"

text \<open>The callback of the click timer.\<close>

definition clickTimeout :: "extension \<Rightarrow> extension" where
  "clickTimeout s = toggleRecording (s\<lparr>clickTimerId := None\<rparr>)"

section \<open>The event loop, one subsystem at a time\<close>

text \<open>
  Everything runs on one main loop: an input handler or a timer callback runs to
  completion before the next one starts, and a one-shot timer runs once the clock has
  reached its due time. The loop below is restricted to the click timer: before a press
  at time \<open>t\<close> is handled, the click timer runs if it is due by then. No other callback
  reads or writes \<open>clickTimerId\<close> or \<open>spawned\<close>.
\<close>

definition run_click_timer :: "real \<Rightarrow> extension \<Rightarrow> extension" where
  "run_click_timer now s =
     (case clickTimerId s of
        Some tm \<Rightarrow> if due tm \<le> now then clickTimeout s else s
      | None \<Rightarrow> s)"

fun presses :: "real list \<Rightarrow> extension \<Rightarrow> extension" where
  "presses [] s = s"
| "presses (t # ts) s = presses ts (handlePrimaryClick t (run_click_timer t s))"

text \<open>Presses at the given times, then the loop runs on until time \<open>T\<close>.\<close>

definition click_run :: "real list \<Rightarrow> real \<Rightarrow> extension \<Rightarrow> extension" where
  "click_run ts T s = run_click_timer T (presses ts s)"

text \<open>
  The same for the two load timers. The content of each file as a function of time is
  given by the environment. A callback that raises is reported by the loop and its source
  removed, so the loop goes on from the fields as the callback left them. When both
  timers are due, the one due first runs first.
\<close>

record files =
  overlay_file :: "real \<Rightarrow> document"
  tray_file :: "real \<Rightarrow> document"

definition run_overlay_timer :: "files \<Rightarrow> real \<Rightarrow> extension \<Rightarrow> extension" where
  "run_overlay_timer fs now s =
     (case loadOverlayTimerId s of
        Some tm \<Rightarrow>
          if due tm \<le> now
          then state_of (loadOverlayTimeout (overlay_file fs (due tm)) (due tm) s)
          else s
      | None \<Rightarrow> s)"

definition run_tray_timer :: "files \<Rightarrow> real \<Rightarrow> extension \<Rightarrow> extension" where
  "run_tray_timer fs now s =
     (case loadTrayTimerId s of
        Some tm \<Rightarrow>
          if due tm \<le> now
          then state_of (loadTrayTimeout (tray_file fs (due tm)) (due tm) s)
          else s
      | None \<Rightarrow> s)"

definition overlay_due_first :: "extension \<Rightarrow> bool" where
  "overlay_due_first s \<longleftrightarrow>
     (case loadOverlayTimerId s of
        None \<Rightarrow> True
      | Some a \<Rightarrow> (case loadTrayTimerId s of None \<Rightarrow> True | Some b \<Rightarrow> due a \<le> due b))"

definition run_load_timers :: "files \<Rightarrow> real \<Rightarrow> extension \<Rightarrow> extension" where
  "run_load_timers fs now s =
     (if overlay_due_first s then run_tray_timer fs now (run_overlay_timer fs now s)
      else run_overlay_timer fs now (run_tray_timer fs now s))"

type_synonym notification = "real \<times> string option \<times> string option"

fun deliver :: "files \<Rightarrow> notification list \<Rightarrow> extension \<Rightarrow> extension" where
  "deliver fs [] s = s"
| "deliver fs ((t, file, otherFile) # ns) s =
     deliver fs ns (changed file otherFile t (run_load_timers fs t s))"

text \<open>Notifications at the given times, then the loop runs on until time \<open>T\<close>.\<close>

definition watch_run :: "files \<Rightarrow> notification list \<Rightarrow> real \<Rightarrow> extension \<Rightarrow> extension" where
  "watch_run fs ns T s = run_load_timers fs T (deliver fs ns s)"

definition reads_of :: "string \<Rightarrow> extension \<Rightarrow> real list" where
  "reads_of name s = map snd (filter (\<lambda>r. fst r = name) (reads s))"

section \<open>Vocabulary of the properties\<close>





text \<open>A state directory in which neither file can be read.\<close>

definition absent_files :: files where
  "absent_files = \<lparr>overlay_file = (\<lambda>t. Unreadable), tray_file = (\<lambda>t. Unreadable)\<rparr>"

text \<open>
  The precedence rule in the words of the specification: a timestamp is within a flash
  window when it is present and less than the window's length old; recording wins over
  the error flash, which wins over the success flash, which wins over idle.
\<close>

definition spec_within_window :: "real \<Rightarrow> real option \<Rightarrow> real \<Rightarrow> bool" where
  "spec_within_window now ts window \<longleftrightarrow>
     (case ts of Some t \<Rightarrow> now - t < window | None \<Rightarrow> False)"

definition spec_visual :: "real \<Rightarrow> extension \<Rightarrow> visual" where
  "spec_visual now s =
     (if recording s then Recording
      else if spec_within_window now (lastErrorAtMs s) ERROR_FLASH_MS then ErrorFlash
      else if spec_within_window now (lastTranscriptAtMs s) SUCCESS_FLASH_MS then SuccessFlash
      else Idle)"

text \<open>Sample documents and states used to evaluate the definitions.\<close>

definition doc_recording_zero_stamp :: document where
  "doc_recording_zero_stamp =
     Parsed (JObj [(''recording'', JBool True), (''updated_at_ms'', JNum 0)])"

definition doc_recording_no_stamp :: document where
  "doc_recording_no_stamp = Parsed (JObj [(''recording'', JBool True)])"

definition doc_recording_loud :: document where
  "doc_recording_loud = Parsed (JObj [(''recording'', JBool True), (''level'', JNum 1)])"

definition doc_recording_fresh :: document where
  "doc_recording_fresh =
     Parsed (JObj [(''recording'', JBool True), (''updated_at_ms'', JNum 1700000000000)])"

definition doc_not_recording :: document where
  "doc_not_recording = Parsed (JObj [(''recording'', JBool False)])"


definition doc_old_error_new_transcript :: document where
  "doc_old_error_new_transcript =
     Parsed (JObj [(''last_error_at_ms'', JNum 1700000000000),
                   (''last_transcript_at_ms'', JNum 1700000009000)])"

definition doc_hotkey_unprintable :: document where
  "doc_hotkey_unprintable =
     Parsed (JObj [(''hotkeys'', JObj [(''open_app'', JObj [(''toString'', JNum 1)])])])"





definition doc_recent_null :: document where
  "doc_recent_null = Parsed (JObj [(''recent'', JArr [JNull])])"

section \<open>Which fields each method touches\<close>

lemma clearStatusTimer_keeps:
  "recording (clearStatusTimer s) = recording s"
  "startedAtMs (clearStatusTimer s) = startedAtMs s"
  "level (clearStatusTimer s) = level s"
  "levelTarget (clearStatusTimer s) = levelTarget s"
  "bars (clearStatusTimer s) = bars s"
  "meterTimerId (clearStatusTimer s) = meterTimerId s"
  "clockTimerId (clearStatusTimer s) = clockTimerId s"
  "loadOverlayTimerId (clearStatusTimer s) = loadOverlayTimerId s"
  "loadTrayTimerId (clearStatusTimer s) = loadTrayTimerId s"
  "reads (clearStatusTimer s) = reads s"
  "overlayVisible (clearStatusTimer s) = overlayVisible s"
  "trayRecent (clearStatusTimer s) = trayRecent s"
  "lastTranscriptAtMs (clearStatusTimer s) = lastTranscriptAtMs s"
  "lastErrorAtMs (clearStatusTimer s) = lastErrorAtMs s"
  "lastError (clearStatusTimer s) = lastError s"
  "hotkeys (clearStatusTimer s) = hotkeys s"
  "indicatorIcon (clearStatusTimer s) = indicatorIcon s"
  by (simp_all add: clearStatusTimer_def split: option.splits)

lemma scheduleStatusRefresh_keeps:
  "recording (scheduleStatusRefresh now s) = recording s"
  "startedAtMs (scheduleStatusRefresh now s) = startedAtMs s"
  "level (scheduleStatusRefresh now s) = level s"
  "levelTarget (scheduleStatusRefresh now s) = levelTarget s"
  "bars (scheduleStatusRefresh now s) = bars s"
  "meterTimerId (scheduleStatusRefresh now s) = meterTimerId s"
  "clockTimerId (scheduleStatusRefresh now s) = clockTimerId s"
  "loadOverlayTimerId (scheduleStatusRefresh now s) = loadOverlayTimerId s"
  "loadTrayTimerId (scheduleStatusRefresh now s) = loadTrayTimerId s"
  "reads (scheduleStatusRefresh now s) = reads s"
  "overlayVisible (scheduleStatusRefresh now s) = overlayVisible s"
  "trayRecent (scheduleStatusRefresh now s) = trayRecent s"
  "lastTranscriptAtMs (scheduleStatusRefresh now s) = lastTranscriptAtMs s"
  "lastErrorAtMs (scheduleStatusRefresh now s) = lastErrorAtMs s"
  "lastError (scheduleStatusRefresh now s) = lastError s"
  "hotkeys (scheduleStatusRefresh now s) = hotkeys s"
  "indicatorIcon (scheduleStatusRefresh now s) = indicatorIcon s"
  by (simp_all add: scheduleStatusRefresh_def Let_def clearStatusTimer_keeps nextDelay_def
      split: option.splits)

lemma updateIndicator_keeps:
  "recording (updateIndicator now s) = recording s"
  "startedAtMs (updateIndicator now s) = startedAtMs s"
  "level (updateIndicator now s) = level s"
  "levelTarget (updateIndicator now s) = levelTarget s"
  "bars (updateIndicator now s) = bars s"
  "meterTimerId (updateIndicator now s) = meterTimerId s"
  "clockTimerId (updateIndicator now s) = clockTimerId s"
  "loadOverlayTimerId (updateIndicator now s) = loadOverlayTimerId s"
  "loadTrayTimerId (updateIndicator now s) = loadTrayTimerId s"
  "reads (updateIndicator now s) = reads s"
  "overlayVisible (updateIndicator now s) = overlayVisible s"
  "trayRecent (updateIndicator now s) = trayRecent s"
  "lastTranscriptAtMs (updateIndicator now s) = lastTranscriptAtMs s"
  "lastErrorAtMs (updateIndicator now s) = lastErrorAtMs s"
  "lastError (updateIndicator now s) = lastError s"
  "hotkeys (updateIndicator now s) = hotkeys s"
  by (simp_all add: updateIndicator_def Let_def clearStatusTimer_keeps
      scheduleStatusRefresh_keeps split: option.splits)

lemma refresh_toggle_shape:
  "refresh_toggle s = Inr s1 \<Longrightarrow> s1 = s\<lparr>toggleItem := toggleItem s1\<rparr>"
  by (cases "toggleItem s")
     (auto simp add: refresh_toggle_def split: sum.splits)

lemma refresh_open_shape:
  "refresh_open s = Inr s1 \<Longrightarrow> s1 = s\<lparr>openItem := openItem s1\<rparr>"
  by (cases "openItem s")
     (auto simp add: refresh_open_def split: sum.splits)

lemma refresh_recent_shape:
  "state_of (refresh_recent s) = s\<lparr>recentMenu := recentMenu (state_of (refresh_recent s))\<rparr>"
  by (cases "recentMenu s"; cases "add_recent (trayRecent s) []"; cases "fst (add_recent (trayRecent s) [])")
     (simp_all add: refresh_recent_def)

lemma refreshMenu_shape:
  "\<exists>a b c. state_of (refreshMenu s) = s\<lparr>toggleItem := a, openItem := b, recentMenu := c\<rparr>"
proof (cases "refresh_toggle s")
  case (Inl e)
  then have "state_of (refreshMenu s) = s" by (simp add: refreshMenu_def)
  then have "state_of (refreshMenu s)
      = s\<lparr>toggleItem := toggleItem s, openItem := openItem s, recentMenu := recentMenu s\<rparr>"
    by simp
  then show ?thesis by blast
next
  case (Inr s1)
  note t = refresh_toggle_shape [OF Inr]
  show ?thesis
  proof (cases "refresh_open s1")
    case (Inl e)
    then have "state_of (refreshMenu s) = s1" using Inr by (simp add: refreshMenu_def)
    then have "state_of (refreshMenu s)
        = s\<lparr>toggleItem := toggleItem s1, openItem := openItem s, recentMenu := recentMenu s\<rparr>"
      by (subst (asm) t) simp
    then show ?thesis by blast
  next
    case s2: (Inr s2)
    note u = refresh_open_shape [OF s2]
    have "state_of (refreshMenu s) = state_of (refresh_recent s2)"
      using Inr s2 by (simp add: refreshMenu_def)
    also have "\<dots> = s2\<lparr>recentMenu := recentMenu (state_of (refresh_recent s2))\<rparr>"
      by (rule refresh_recent_shape)
    also have "\<dots> = s\<lparr>toggleItem := toggleItem s1, openItem := openItem s2,
                       recentMenu := recentMenu (state_of (refresh_recent s2))\<rparr>"
      by (subst u, subst t) simp
    finally show ?thesis by blast
  qed
qed

lemma refreshMenu_keeps:
  "recording (state_of (refreshMenu s)) = recording s"
  "startedAtMs (state_of (refreshMenu s)) = startedAtMs s"
  "level (state_of (refreshMenu s)) = level s"
  "levelTarget (state_of (refreshMenu s)) = levelTarget s"
  "bars (state_of (refreshMenu s)) = bars s"
  "meterTimerId (state_of (refreshMenu s)) = meterTimerId s"
  "clockTimerId (state_of (refreshMenu s)) = clockTimerId s"
  "loadOverlayTimerId (state_of (refreshMenu s)) = loadOverlayTimerId s"
  "loadTrayTimerId (state_of (refreshMenu s)) = loadTrayTimerId s"
  "reads (state_of (refreshMenu s)) = reads s"
  "overlayVisible (state_of (refreshMenu s)) = overlayVisible s"
  "trayRecent (state_of (refreshMenu s)) = trayRecent s"
  "lastTranscriptAtMs (state_of (refreshMenu s)) = lastTranscriptAtMs s"
  "lastErrorAtMs (state_of (refreshMenu s)) = lastErrorAtMs s"
  "lastError (state_of (refreshMenu s)) = lastError s"
  "hotkeys (state_of (refreshMenu s)) = hotkeys s"
proof -
  obtain a b c where e:
    "state_of (refreshMenu s) = s\<lparr>toggleItem := a, openItem := b, recentMenu := c\<rparr>"
    using refreshMenu_shape by blast
  show
    "recording (state_of (refreshMenu s)) = recording s"
    "startedAtMs (state_of (refreshMenu s)) = startedAtMs s"
    "level (state_of (refreshMenu s)) = level s"
    "levelTarget (state_of (refreshMenu s)) = levelTarget s"
    "bars (state_of (refreshMenu s)) = bars s"
    "meterTimerId (state_of (refreshMenu s)) = meterTimerId s"
    "clockTimerId (state_of (refreshMenu s)) = clockTimerId s"
    "loadOverlayTimerId (state_of (refreshMenu s)) = loadOverlayTimerId s"
    "loadTrayTimerId (state_of (refreshMenu s)) = loadTrayTimerId s"
    "reads (state_of (refreshMenu s)) = reads s"
    "overlayVisible (state_of (refreshMenu s)) = overlayVisible s"
    "trayRecent (state_of (refreshMenu s)) = trayRecent s"
    "lastTranscriptAtMs (state_of (refreshMenu s)) = lastTranscriptAtMs s"
    "lastErrorAtMs (state_of (refreshMenu s)) = lastErrorAtMs s"
    "lastError (state_of (refreshMenu s)) = lastError s"
    "hotkeys (state_of (refreshMenu s)) = hotkeys s"
    by (simp_all add: e)
qed

lemma state_of_then_update:
  "state_of (case out of
               Raised e s2 \<Rightarrow> Raised e s2
             | Returned s2 \<Rightarrow> Returned (updateIndicator now s2))
     = (if raised out then state_of out else updateIndicator now (state_of out))"
  by (cases out) simp_all


lemma showOverlay_keeps:
  "recording (state_of (showOverlay st now s)) = True"
  "startedAtMs (state_of (showOverlay st now s)) = st"
  "levelTarget (state_of (showOverlay st now s)) = levelTarget s"
  "loadOverlayTimerId (state_of (showOverlay st now s)) = loadOverlayTimerId s"
  "loadTrayTimerId (state_of (showOverlay st now s)) = loadTrayTimerId s"
  "reads (state_of (showOverlay st now s)) = reads s"
  by (simp_all add: showOverlay_def refreshMenu_keeps updateIndicator_keeps startClock_def
      startMeter_def updateClock_def Let_def split: option.splits)

lemma hideOverlay_effect:
  "recording (state_of (hideOverlay now s)) = False"
  "startedAtMs (state_of (hideOverlay now s)) = None"
  "level (state_of (hideOverlay now s)) = 0"
  "levelTarget (state_of (hideOverlay now s)) = 0"
  "overlayVisible (state_of (hideOverlay now s)) = False"
  "meterTimerId (state_of (hideOverlay now s)) = None"
  "clockTimerId (state_of (hideOverlay now s)) = None"
  "bars (state_of (hideOverlay now s)) = bars s"
  "loadOverlayTimerId (state_of (hideOverlay now s)) = loadOverlayTimerId s"
  "loadTrayTimerId (state_of (hideOverlay now s)) = loadTrayTimerId s"
  "reads (state_of (hideOverlay now s)) = reads s"
  by (simp_all add: hideOverlay_def refreshMenu_keeps updateIndicator_keeps stopClock_def
      stopMeter_def split: option.splits)

lemma loadOverlayState_watch:
  "loadOverlayTimerId (state_of (loadOverlayState doc now s)) = loadOverlayTimerId s"
  "loadTrayTimerId (state_of (loadOverlayState doc now s)) = loadTrayTimerId s"
  "reads (state_of (loadOverlayState doc now s)) = reads s @ [(STATE_FILE, now)]"
  by (simp_all add: loadOverlayState_def Let_def showOverlay_keeps hideOverlay_effect)

lemma loadTrayState_watch:
  "loadOverlayTimerId (state_of (loadTrayState doc now s)) = loadOverlayTimerId s"
  "loadTrayTimerId (state_of (loadTrayState doc now s)) = loadTrayTimerId s"
  "reads (state_of (loadTrayState doc now s)) = reads s @ [(TRAY_FILE, now)]"
  by (simp_all add: loadTrayState_def Let_def state_of_then_update refreshMenu_keeps
      updateIndicator_keeps)


section \<open>When the menu refresh raises\<close>










text \<open>
  The menu refresh runs outside the \<open>try\<close> block of the tray load: a \<open>null\<close> entry in the
  recent list, or a hotkey that cannot be converted to a string, makes the load raise.
\<close>

lemma null_recent_entry_raises: "raised (loadTrayState doc_recent_null 1000 enabled)"
  by code_simp

lemma unprintable_hotkey_raises: "raised (loadTrayState doc_hotkey_unprintable 1000 enabled)"
  by code_simp

section \<open>Parsing lemmas\<close>



lemma overlay_parse_Parsed:
  "overlay_parse (Parsed data) =
     (if data = JNull then overlay_default
      else \<lparr>ol_recording = truthy (member data ''recording''),
            ol_startedAtMs = finite_number (member data ''started_at_ms''),
            ol_level = (case finite_number (member data ''level'') of
                         Some l \<Rightarrow> max 0 (min 1 l) | None \<Rightarrow> 0),
            ol_updatedAtMs = finite_number (member data ''updated_at_ms'')\<rparr>)"
  by (cases data) (simp_all add: overlay_parse_def overlay_try_def read_json_def)






lemma loaded_fields:
  "ol_updatedAtMs (overlay_loaded now doc) = ol_updatedAtMs (overlay_parse doc)"
  "ol_recording (overlay_loaded now doc) \<longleftrightarrow>
     ol_recording (overlay_parse doc) \<and> \<not> stale now (overlay_parse doc)"
  by (auto simp add: overlay_loaded_def freshen_def stale_def)

text \<open>
  With a non-zero timestamp the staleness override works as intended: older than the
  threshold is reset to idle, exactly at the threshold is kept.
\<close>

lemma stale_recording_normalized:
  assumes "ol_recording (overlay_parse doc)" "ol_updatedAtMs (overlay_parse doc) = Some u" "u \<noteq> 0"
  shows "now - u > STALE_STATE_MS \<Longrightarrow>
           overlay_loaded now doc =
             (overlay_parse doc)\<lparr>ol_recording := False, ol_startedAtMs := None, ol_level := 0\<rparr>"
    and "now - u \<le> STALE_STATE_MS \<Longrightarrow> overlay_loaded now doc = overlay_parse doc"
  using assms by (simp_all add: overlay_loaded_def freshen_def stale_def)

section \<open>The load timers in the event loop\<close>

lemma run_tray_timer_overlay:
  "loadOverlayTimerId (run_tray_timer fs now s) = loadOverlayTimerId s"
  "reads_of STATE_FILE (run_tray_timer fs now s) = reads_of STATE_FILE s"
  by (simp_all add: run_tray_timer_def loadTrayTimeout_def loadTrayState_watch reads_of_def
      STATE_FILE_def TRAY_FILE_def split: option.splits)

lemma run_overlay_timer_tray:
  "loadTrayTimerId (run_overlay_timer fs now s) = loadTrayTimerId s"
  "reads_of TRAY_FILE (run_overlay_timer fs now s) = reads_of TRAY_FILE s"
  by (simp_all add: run_overlay_timer_def loadOverlayTimeout_def loadOverlayState_watch
      reads_of_def STATE_FILE_def TRAY_FILE_def split: option.splits)

lemma run_overlay_timer_fires:
  "loadOverlayTimerId s = Some tm \<Longrightarrow> due tm \<le> now \<Longrightarrow>
     loadOverlayTimerId (run_overlay_timer fs now s) = None \<and>
     reads_of STATE_FILE (run_overlay_timer fs now s) = reads_of STATE_FILE s @ [due tm]"
  by (simp add: run_overlay_timer_def loadOverlayTimeout_def loadOverlayState_watch reads_of_def)

lemma run_overlay_timer_waits:
  "loadOverlayTimerId s = None \<or> (\<exists>tm. loadOverlayTimerId s = Some tm \<and> now < due tm) \<Longrightarrow>
     run_overlay_timer fs now s = s"
  by (auto simp add: run_overlay_timer_def)

lemma run_tray_timer_fires:
  "loadTrayTimerId s = Some tm \<Longrightarrow> due tm \<le> now \<Longrightarrow>
     loadTrayTimerId (run_tray_timer fs now s) = None \<and>
     reads_of TRAY_FILE (run_tray_timer fs now s) = reads_of TRAY_FILE s @ [due tm]"
  by (simp add: run_tray_timer_def loadTrayTimeout_def loadTrayState_watch reads_of_def)

lemma run_tray_timer_waits:
  "loadTrayTimerId s = None \<or> (\<exists>tm. loadTrayTimerId s = Some tm \<and> now < due tm) \<Longrightarrow>
     run_tray_timer fs now s = s"
  by (auto simp add: run_tray_timer_def)

lemma run_load_timers_overlay_waits:
  assumes "loadOverlayTimerId s = None \<or> (\<exists>tm. loadOverlayTimerId s = Some tm \<and> now < due tm)"
  shows "loadOverlayTimerId (run_load_timers fs now s) = loadOverlayTimerId s \<and>
         reads_of STATE_FILE (run_load_timers fs now s) = reads_of STATE_FILE s"
proof -
  have "loadOverlayTimerId (run_tray_timer fs now s) = None \<or>
        (\<exists>tm. loadOverlayTimerId (run_tray_timer fs now s) = Some tm \<and> now < due tm)"
    using assms by (simp add: run_tray_timer_overlay)
  then have "run_overlay_timer fs now (run_tray_timer fs now s) = run_tray_timer fs now s"
    by (rule run_overlay_timer_waits)
  moreover have "run_overlay_timer fs now s = s"
    using assms by (rule run_overlay_timer_waits)
  ultimately show ?thesis
    by (simp add: run_load_timers_def run_tray_timer_overlay)
qed

lemma run_load_timers_overlay_fires:
  assumes "loadOverlayTimerId s = Some tm" "due tm \<le> now"
  shows "loadOverlayTimerId (run_load_timers fs now s) = None \<and>
         reads_of STATE_FILE (run_load_timers fs now s) = reads_of STATE_FILE s @ [due tm]"
proof -
  have "loadOverlayTimerId (run_tray_timer fs now s) = Some tm"
    using assms by (simp add: run_tray_timer_overlay)
  from run_overlay_timer_fires [OF this assms(2), of fs]
       run_overlay_timer_fires [OF assms, of fs]
  show ?thesis
    by (simp add: run_load_timers_def run_tray_timer_overlay)
qed

lemma run_load_timers_tray_waits:
  assumes "loadTrayTimerId s = None \<or> (\<exists>tm. loadTrayTimerId s = Some tm \<and> now < due tm)"
  shows "loadTrayTimerId (run_load_timers fs now s) = loadTrayTimerId s \<and>
         reads_of TRAY_FILE (run_load_timers fs now s) = reads_of TRAY_FILE s"
proof -
  have "loadTrayTimerId (run_overlay_timer fs now s) = None \<or>
        (\<exists>tm. loadTrayTimerId (run_overlay_timer fs now s) = Some tm \<and> now < due tm)"
    using assms by (simp add: run_overlay_timer_tray)
  then have "run_tray_timer fs now (run_overlay_timer fs now s) = run_overlay_timer fs now s"
    by (rule run_tray_timer_waits)
  moreover have "run_tray_timer fs now s = s"
    using assms by (rule run_tray_timer_waits)
  ultimately show ?thesis
    by (simp add: run_load_timers_def run_overlay_timer_tray)
qed

lemma run_load_timers_tray_fires:
  assumes "loadTrayTimerId s = Some tm" "due tm \<le> now"
  shows "loadTrayTimerId (run_load_timers fs now s) = None \<and>
         reads_of TRAY_FILE (run_load_timers fs now s) = reads_of TRAY_FILE s @ [due tm]"
proof -
  have "loadTrayTimerId (run_overlay_timer fs now s) = Some tm"
    using assms by (simp add: run_overlay_timer_tray)
  from run_tray_timer_fires [OF this assms(2), of fs]
       run_tray_timer_fires [OF assms, of fs]
  show ?thesis
    by (simp add: run_load_timers_def run_overlay_timer_tray)
qed

lemma changed_overlay:
  "reads_of name (changed f o' t s) = reads_of name s"
  "loadOverlayTimerId s = Some tm \<Longrightarrow> loadOverlayTimerId (changed f o' t s) = Some tm"
  "loadOverlayTimerId s = None \<Longrightarrow> names_overlay (basenames f o') \<Longrightarrow>
     loadOverlayTimerId (changed f o' t s) = Some (timeout_add t 60)"
  "\<not> names_overlay (basenames f o') \<Longrightarrow>
     loadOverlayTimerId (changed f o' t s) = loadOverlayTimerId s"
  by (simp_all add: changed_def Let_def scheduleLoadOverlay_def scheduleLoadTray_def reads_of_def
      split: option.splits)

lemma changed_tray:
  "loadTrayTimerId s = Some tm \<Longrightarrow> loadTrayTimerId (changed f o' t s) = Some tm"
  "loadTrayTimerId s = None \<Longrightarrow> names_tray (basenames f o') \<Longrightarrow>
     loadTrayTimerId (changed f o' t s) = Some (timeout_add t 120)"
  "\<not> names_tray (basenames f o') \<Longrightarrow> loadTrayTimerId (changed f o' t s) = loadTrayTimerId s"
  by (simp_all add: changed_def Let_def scheduleLoadOverlay_def scheduleLoadTray_def
      split: option.splits)

text \<open>While a load timer is pending and not yet due, notifications leave it as it is.\<close>

lemma deliver_overlay_pending:
  assumes "loadOverlayTimerId s = Some tm" "\<forall>n \<in> set ns. fst n < due tm"
  shows "loadOverlayTimerId (deliver fs ns s) = Some tm \<and>
         reads_of STATE_FILE (deliver fs ns s) = reads_of STATE_FILE s"
  using assms
proof (induction ns arbitrary: s)
  case Nil
  then show ?case by simp
next
  case (Cons n ns)
  obtain t f o' where n: "n = (t, f, o')" by (cases n) auto
  have t: "t < due tm" using Cons.prems(2) n by simp
  let ?s1 = "changed f o' t (run_load_timers fs t s)"
  have w: "loadOverlayTimerId (run_load_timers fs t s) = Some tm \<and>
        reads_of STATE_FILE (run_load_timers fs t s) = reads_of STATE_FILE s"
    using run_load_timers_overlay_waits [of s t fs] Cons.prems(1) t by simp
  then have s1: "loadOverlayTimerId ?s1 = Some tm"
      "reads_of STATE_FILE ?s1 = reads_of STATE_FILE s"
    by (simp_all add: changed_overlay)
  from Cons.IH [OF s1(1)] Cons.prems(2) s1(2) show ?case by (simp add: n)
qed

lemma deliver_tray_pending:
  assumes "loadTrayTimerId s = Some tm" "\<forall>n \<in> set ns. fst n < due tm"
  shows "loadTrayTimerId (deliver fs ns s) = Some tm \<and>
         reads_of TRAY_FILE (deliver fs ns s) = reads_of TRAY_FILE s"
  using assms
proof (induction ns arbitrary: s)
  case Nil
  then show ?case by simp
next
  case (Cons n ns)
  obtain t f o' where n: "n = (t, f, o')" by (cases n) auto
  have t: "t < due tm" using Cons.prems(2) n by simp
  let ?s1 = "changed f o' t (run_load_timers fs t s)"
  have w: "loadTrayTimerId (run_load_timers fs t s) = Some tm \<and>
        reads_of TRAY_FILE (run_load_timers fs t s) = reads_of TRAY_FILE s"
    using run_load_timers_tray_waits [of s t fs] Cons.prems(1) t by simp
  then have s1: "loadTrayTimerId ?s1 = Some tm" "reads_of TRAY_FILE ?s1 = reads_of TRAY_FILE s"
    by (simp_all add: changed_tray changed_overlay)
  from Cons.IH [OF s1(1)] Cons.prems(2) s1(2) show ?case by (simp add: n)
qed

lemma overlay_burst:
  assumes idle: "loadOverlayTimerId s = None"
    and first: "names_overlay (basenames f o')"
    and rest: "\<forall>n \<in> set ns. fst n < t0 + 60"
    and late: "t0 + 60 \<le> T"
  shows "reads_of STATE_FILE (watch_run fs ((t0, f, o') # ns) T s)
           = reads_of STATE_FILE s @ [t0 + 60] \<and>
         loadOverlayTimerId (watch_run fs ((t0, f, o') # ns) T s) = None"
proof -
  let ?tm = "timeout_add t0 60"
  let ?s1 = "changed f o' t0 (run_load_timers fs t0 s)"
  have d: "due ?tm = t0 + 60" by (simp add: due_def timeout_add_def)
  have w: "loadOverlayTimerId (run_load_timers fs t0 s) = None \<and>
        reads_of STATE_FILE (run_load_timers fs t0 s) = reads_of STATE_FILE s"
    using run_load_timers_overlay_waits [of s t0 fs] idle by simp
  then have s1: "loadOverlayTimerId ?s1 = Some ?tm"
      "reads_of STATE_FILE ?s1 = reads_of STATE_FILE s"
    using first by (simp_all add: changed_overlay)
  have p: "loadOverlayTimerId (deliver fs ns ?s1) = Some ?tm \<and>
         reads_of STATE_FILE (deliver fs ns ?s1) = reads_of STATE_FILE s"
    using deliver_overlay_pending [OF s1(1), of ns fs] rest s1(2) by (simp add: d)
  from run_load_timers_overlay_fires [of "deliver fs ns ?s1" ?tm T fs] p late
  show ?thesis by (simp add: watch_run_def d)
qed

lemma tray_burst:
  assumes idle: "loadTrayTimerId s = None"
    and first: "names_tray (basenames f o')"
    and rest: "\<forall>n \<in> set ns. fst n < t0 + 120"
    and late: "t0 + 120 \<le> T"
  shows "reads_of TRAY_FILE (watch_run fs ((t0, f, o') # ns) T s)
           = reads_of TRAY_FILE s @ [t0 + 120] \<and>
         loadTrayTimerId (watch_run fs ((t0, f, o') # ns) T s) = None"
proof -
  let ?tm = "timeout_add t0 120"
  let ?s1 = "changed f o' t0 (run_load_timers fs t0 s)"
  have d: "due ?tm = t0 + 120" by (simp add: due_def timeout_add_def)
  have w: "loadTrayTimerId (run_load_timers fs t0 s) = None \<and>
        reads_of TRAY_FILE (run_load_timers fs t0 s) = reads_of TRAY_FILE s"
    using run_load_timers_tray_waits [of s t0 fs] idle by simp
  then have s1: "loadTrayTimerId ?s1 = Some ?tm" "reads_of TRAY_FILE ?s1 = reads_of TRAY_FILE s"
    using first by (simp_all add: changed_tray changed_overlay)
  have p: "loadTrayTimerId (deliver fs ns ?s1) = Some ?tm \<and>
         reads_of TRAY_FILE (deliver fs ns ?s1) = reads_of TRAY_FILE s"
    using deliver_tray_pending [OF s1(1), of ns fs] rest s1(2) by (simp add: d)
  from run_load_timers_tray_fires [of "deliver fs ns ?s1" ?tm T fs] p late
  show ?thesis by (simp add: watch_run_def d)
qed

section \<open>Indicator lemmas\<close>

lemma age_window:
  "w \<le> now \<Longrightarrow>
     (case age now ts of Some a \<Rightarrow> a < w | None \<Rightarrow> False) = spec_within_window now ts w"
  by (cases ts) (auto simp add: spec_within_window_def)

lemma visual_scheduleStatusRefresh:
  "visual_state (scheduleStatusRefresh now s) = visual_state s"
  by (simp add: visual_state_def scheduleStatusRefresh_keeps)

lemma visual_clearStatusTimer: "visual_state (clearStatusTimer s) = visual_state s"
  by (simp add: visual_state_def clearStatusTimer_keeps)

lemma updateIndicator_visual:
  assumes "indicatorIcon s \<noteq> None"
  shows "visual_state (updateIndicator now s) =
     Some (if recording s then Recording
           else if error_showing now s then ErrorFlash
           else if success_showing now s then SuccessFlash
           else Idle)"
  using assms
  by (auto simp add: updateIndicator_def visual_scheduleStatusRefresh visual_clearStatusTimer
        Let_def split: option.splits)
     (simp_all add: visual_state_def visual_of_def add_style_class_name_def
        remove_style_class_name_def)

section \<open>Meter lemmas\<close>

lemma weights_range: "w \<in> set BAR_WEIGHTS \<Longrightarrow> 0 \<le> w \<and> w \<le> 1"
  by (auto simp add: BAR_WEIGHTS_def)

lemma weight_nth_range:
  "0 \<le> BAR_WEIGHTS ! (i mod length BAR_WEIGHTS) \<and>
   BAR_WEIGHTS ! (i mod length BAR_WEIGHTS) \<le> 1"
proof -
  have "length BAR_WEIGHTS > 0" by (simp add: BAR_WEIGHTS_def)
  then have "BAR_WEIGHTS ! (i mod length BAR_WEIGHTS) \<in> set BAR_WEIGHTS"
    by (intro nth_mem) simp
  then show ?thesis using weights_range by blast
qed

lemma bar_height_range:
  assumes "0 \<le> c" "c \<le> 1"
  shows "BAR_MIN_HEIGHT \<le> bar_height c i \<and> bar_height c i \<le> BAR_MAX_HEIGHT"
proof -
  define w where "w = BAR_WEIGHTS ! (i mod length BAR_WEIGHTS)"
  have w: "0 \<le> w" "w \<le> 1" using weight_nth_range [of i] by (simp_all add: w_def)
  have p0: "0 \<le> c * w" using assms w by simp
  have p1: "c * w \<le> 1" using assms w by (simp add: mult_le_one)
  have h: "bar_height c i = \<lfloor>10 + 16 * (c * w) + 1 / 2\<rfloor>"
    by (simp add: bar_height_def w_def math_round_def BAR_MIN_HEIGHT_def BAR_MAX_HEIGHT_def
        Let_def mult.assoc)
  have lo: "(10::int) \<le> \<lfloor>10 + 16 * (c * w) + 1 / 2\<rfloor>"
    using p0 by (simp add: le_floor_iff)
  have hi: "\<lfloor>10 + 16 * (c * w) + 1 / 2\<rfloor> \<le> (26::int)"
    using p1 by (simp add: floor_le_iff)
  show ?thesis using lo hi by (simp add: h BAR_MIN_HEIGHT_def BAR_MAX_HEIGHT_def)
qed

lemma status_timer_armed:
  assumes "indicatorIcon s \<noteq> None" "\<not> recording s"
  shows "lastErrorAtMs s = Some e \<Longrightarrow> e \<noteq> 0 \<Longrightarrow> now - e < ERROR_FLASH_MS \<Longrightarrow>
           statusTimerId (updateIndicator now s)
             = Some (timeout_add now (ERROR_FLASH_MS - (now - e)))"
    and "age now (lastErrorAtMs s) = None \<Longrightarrow> lastTranscriptAtMs s = Some t \<Longrightarrow> t \<noteq> 0 \<Longrightarrow>
           now - t < SUCCESS_FLASH_MS \<Longrightarrow>
           statusTimerId (updateIndicator now s)
             = Some (timeout_add now (SUCCESS_FLASH_MS - (now - t)))"
  using assms
  by (auto simp add: updateIndicator_def Let_def error_showing_def success_showing_def
      scheduleStatusRefresh_def clearStatusTimer_def nextDelay_def split: option.splits)

section \<open>The claims\<close>




text \<open>
  Claim C2. A recording document that claims \<open>recording = true\<close> with a timestamp more
  than 5000 ms old must be reset to idle. The code tests the timestamp for truthiness
  before it looks at its age, so a timestamp of zero, the oldest there is, passes for
  absent: the document below is loaded as recording and the overlay is shown, although
  its age exceeds the threshold. For any other timestamp the override works
  (\<open>stale_recording_normalized\<close>).
\<close>

theorem zero_timestamp_stays_recording:
  "STALE_STATE_MS < 1700000000000 - 0
   \<and> ol_updatedAtMs (overlay_parse doc_recording_zero_stamp) = Some 0
   \<and> ol_recording (overlay_loaded 1700000000000 doc_recording_zero_stamp)
   \<and> recording (state_of (loadOverlayState doc_recording_zero_stamp 1700000000000 enabled))
   \<and> overlayVisible (state_of (loadOverlayState doc_recording_zero_stamp 1700000000000 enabled))"
  by code_simp

text \<open>
  Claim C3, as stated, fails: a document with \<open>recording = true\<close> and no
  \<open>updated_at_ms\<close> is treated as recording.
\<close>

theorem untimed_recording_shown:
  "ol_updatedAtMs (overlay_loaded 1700000000000 doc_recording_no_stamp) = None
   \<and> ol_recording (overlay_loaded 1700000000000 doc_recording_no_stamp)
   \<and> recording (state_of (loadOverlayState doc_recording_no_stamp 1700000000000 enabled))
   \<and> overlayVisible (state_of (loadOverlayState doc_recording_no_stamp 1700000000000 enabled))"
  by code_simp

text \<open>
  Claim C3, amended. Whenever a load ends with \<open>recording = true\<close>, the timestamp is
  either absent, in which case the staleness test is skipped, or (a timestamp of zero set
  aside) at most 5000 ms old. In particular a document whose \<open>recording\<close> is truthy and
  whose \<open>updated_at_ms\<close> is absent or not a finite number is treated as recording.
\<close>

theorem recording_fresh_or_untimed:
  "(ol_recording (overlay_loaded now doc) \<longrightarrow>
      (case ol_updatedAtMs (overlay_loaded now doc) of
         None \<Rightarrow> True
       | Some u \<Rightarrow> u \<noteq> 0 \<longrightarrow> now - u \<le> STALE_STATE_MS))
   \<and> (truthy (member data ''recording'') \<longrightarrow>
        finite_number (member data ''updated_at_ms'') = None \<longrightarrow>
        ol_recording (overlay_loaded now (Parsed data)) \<and>
        recording (state_of (loadOverlayState (Parsed data) now s)))"
proof (intro conjI impI)
  assume "ol_recording (overlay_loaded now doc)"
  then show "case ol_updatedAtMs (overlay_loaded now doc) of
         None \<Rightarrow> True
       | Some u \<Rightarrow> u \<noteq> 0 \<longrightarrow> now - u \<le> STALE_STATE_MS"
    by (auto simp add: loaded_fields stale_def split: option.splits)
next
  assume a: "truthy (member data ''recording'')"
    and b: "finite_number (member data ''updated_at_ms'') = None"
  from a have "data \<noteq> JNull" by auto
  with a b show r: "ol_recording (overlay_loaded now (Parsed data))"
    by (simp add: loaded_fields overlay_parse_Parsed stale_def)
  then show "recording (state_of (loadOverlayState (Parsed data) now s))"
    by (simp add: loadOverlayState_def Let_def showOverlay_keeps)
qed

theorem recording_fresh_or_untimed_witness:
  "ol_recording (overlay_loaded 1700000003000 doc_recording_fresh)
   \<and> ol_updatedAtMs (overlay_loaded 1700000003000 doc_recording_fresh) = Some 1700000000000
   \<and> (1700000003000 :: real) - 1700000000000 \<le> STALE_STATE_MS
   \<and> truthy (member (JObj [(''recording'', JBool True)]) ''recording'')
   \<and> finite_number (member (JObj [(''recording'', JBool True)]) ''updated_at_ms'') = None
   \<and> recording (state_of (loadOverlayState (Parsed (JObj [(''recording'', JBool True)]))
        1700000003000 enabled))"
proof -
  have h: "ol_recording (overlay_loaded 1700000003000 doc_recording_fresh)"
    "ol_updatedAtMs (overlay_loaded 1700000003000 doc_recording_fresh) = Some 1700000000000"
    "truthy (member (JObj [(''recording'', JBool True)]) ''recording'')"
    "finite_number (member (JObj [(''recording'', JBool True)]) ''updated_at_ms'') = None"
    by code_simp+
  from h recording_fresh_or_untimed
         [of 1700000003000 doc_recording_fresh "JObj [(''recording'', JBool True)]" enabled]
  show ?thesis by simp
qed

text \<open>
  Claim C4, as stated, fails: the load timer is armed by the first notification and later
  notifications do not re-arm it. After notifications at 0 and 50 ms the timer is still
  the one armed at 0, so the reload runs at 60 ms, 10 ms after the last notification; and
  a burst at 0, 50 and 100 ms, each notification within 60 ms of the one before, ends in
  two reloads, at 60 and at 160 ms.
\<close>

theorem load_timer_not_rearmed:
  "reads_of STATE_FILE
     (watch_run absent_files
        [(0, Some ''overlay.tmp'', None), (50, Some ''overlay.json'', None),
         (100, Some ''overlay.json'', None)] 1000 enabled) = [60, 160]
   \<and> loadOverlayTimerId
       (deliver absent_files
          [(0, Some ''overlay.tmp'', None), (50, Some ''overlay.json'', None)] enabled)
     = Some \<lparr>armed_at = 0, interval = 60\<rparr>"
  by code_simp

text \<open>
  Claim C4, amended. When no reload of a file is pending and a notification naming the
  file (by its final or its temporary name) arrives at time \<open>t0\<close>, a one-shot timer is
  armed for 60 ms (recording document) or 120 ms (tray document). Further notifications
  naming the file before the timer runs neither re-arm it nor add a reload, so for a
  burst of one or more notifications that all arrive before \<open>t0 + 60\<close> (or \<open>t0 + 120\<close>)
  exactly one reload of the file is performed, at \<open>t0 + 60\<close> (or \<open>t0 + 120\<close>), and no
  timer is pending afterwards. The two files have separate timers: a notification that
  does not name a file leaves that file's timer alone, and the callback of one timer
  leaves the other timer alone.
\<close>

theorem burst_reloads_once:
  "(loadOverlayTimerId s = None \<and> names_overlay (basenames f o') \<and>
      (\<forall>n \<in> set ns. names_overlay (basenames (fst (snd n)) (snd (snd n))) \<and> fst n < t0 + 60) \<and>
      t0 + 60 \<le> T \<longrightarrow>
      reads_of STATE_FILE (watch_run fs ((t0, f, o') # ns) T s)
        = reads_of STATE_FILE s @ [t0 + 60] \<and>
      loadOverlayTimerId (watch_run fs ((t0, f, o') # ns) T s) = None)
   \<and> (loadTrayTimerId s = None \<and> names_tray (basenames f o') \<and>
      (\<forall>n \<in> set ns. names_tray (basenames (fst (snd n)) (snd (snd n))) \<and> fst n < t0 + 120) \<and>
      t0 + 120 \<le> T \<longrightarrow>
      reads_of TRAY_FILE (watch_run fs ((t0, f, o') # ns) T s)
        = reads_of TRAY_FILE s @ [t0 + 120] \<and>
      loadTrayTimerId (watch_run fs ((t0, f, o') # ns) T s) = None)
   \<and> (loadOverlayTimerId s = Some tm \<longrightarrow> loadOverlayTimerId (changed f o' t s) = Some tm)
   \<and> (loadTrayTimerId s = Some tm \<longrightarrow> loadTrayTimerId (changed f o' t s) = Some tm)
   \<and> (\<not> names_overlay (basenames f o') \<longrightarrow>
        loadOverlayTimerId (changed f o' t s) = loadOverlayTimerId s)
   \<and> (\<not> names_tray (basenames f o') \<longrightarrow>
        loadTrayTimerId (changed f o' t s) = loadTrayTimerId s)
   \<and> loadTrayTimerId (run_overlay_timer fs t s) = loadTrayTimerId s
   \<and> loadOverlayTimerId (run_tray_timer fs t s) = loadOverlayTimerId s"
proof -
  have ov: "reads_of STATE_FILE (watch_run fs ((t0, f, o') # ns) T s)
        = reads_of STATE_FILE s @ [t0 + 60] \<and>
      loadOverlayTimerId (watch_run fs ((t0, f, o') # ns) T s) = None"
    if "loadOverlayTimerId s = None \<and> names_overlay (basenames f o') \<and>
      (\<forall>n \<in> set ns. names_overlay (basenames (fst (snd n)) (snd (snd n))) \<and> fst n < t0 + 60) \<and>
      t0 + 60 \<le> T"
    using that by (intro overlay_burst) simp_all
  have tr: "reads_of TRAY_FILE (watch_run fs ((t0, f, o') # ns) T s)
        = reads_of TRAY_FILE s @ [t0 + 120] \<and>
      loadTrayTimerId (watch_run fs ((t0, f, o') # ns) T s) = None"
    if "loadTrayTimerId s = None \<and> names_tray (basenames f o') \<and>
      (\<forall>n \<in> set ns. names_tray (basenames (fst (snd n)) (snd (snd n))) \<and> fst n < t0 + 120) \<and>
      t0 + 120 \<le> T"
    using that by (intro tray_burst) simp_all
  show ?thesis
    using ov tr
    by (simp add: changed_overlay changed_tray run_overlay_timer_tray run_tray_timer_overlay)
qed

theorem burst_reloads_once_witness:
  "loadOverlayTimerId enabled = None \<and> loadTrayTimerId enabled = None
   \<and> names_overlay (basenames (Some ''overlay.tmp'') (Some ''overlay.json''))
   \<and> names_overlay (basenames (Some ''overlay.json'') None)
   \<and> \<not> names_tray (basenames (Some ''overlay.json'') None)
   \<and> names_tray (basenames (Some ''tray.tmp'') None)
   \<and> names_tray (basenames (Some ''tray.json'') None)
   \<and> \<not> names_overlay (basenames (Some ''tray.json'') None)
   \<and> reads_of STATE_FILE
        (watch_run absent_files
          [(1000, Some ''overlay.tmp'', Some ''overlay.json''), (1040, Some ''overlay.json'', None)]
          1060 enabled) = [1060]
   \<and> reads_of TRAY_FILE
        (watch_run absent_files
          [(1000, Some ''tray.tmp'', None), (1100, Some ''tray.json'', None)]
          1120 enabled) = [1120]"
  using burst_reloads_once [of enabled "Some ''overlay.tmp''" "Some ''overlay.json''"
              "[(1040, Some ''overlay.json'', None)]" 1000 1060 absent_files]
        burst_reloads_once [of enabled "Some ''tray.tmp''" None
              "[(1100, Some ''tray.json'', None)]" 1000 1120 absent_files]
  by (simp add: enabled_def names_overlay_def names_tray_def basenames_def STATE_FILE_def
      STATE_TMP_FILE_def TRAY_FILE_def TRAY_TMP_FILE_def reads_of_def)

text \<open>
  Claim C5. From a state with no click pending: a press at time \<open>t\<close> followed by no other
  press spawns nothing before \<open>t + 220\<close> and, once the loop has reached \<open>t + 220\<close>, has
  spawned \<open>--toggle\<close> exactly once; a second press at \<open>t2\<close> with \<open>t \<le> t2 < t + 220\<close>
  spawns \<open>--show\<close> exactly once and never \<open>--toggle\<close>, however long the loop runs on; and
  in both cases no click timer is left.
\<close>

theorem click_disambiguation:
  assumes "clickTimerId s = None"
  shows "(t + DOUBLE_CLICK_MS \<le> T \<longrightarrow>
           spawned (click_run [t] T s) = spawned s @ [''--toggle''] \<and>
           clickTimerId (click_run [t] T s) = None)
       \<and> (T < t + DOUBLE_CLICK_MS \<longrightarrow> spawned (click_run [t] T s) = spawned s)
       \<and> (t \<le> t2 \<and> t2 < t + DOUBLE_CLICK_MS \<longrightarrow>
           spawned (click_run [t, t2] T s) = spawned s @ [''--show''] \<and>
           clickTimerId (click_run [t, t2] T s) = None)"
  using assms
  by (simp add: click_run_def run_click_timer_def handlePrimaryClick_def clickTimeout_def
      toggleRecording_def openApp_def clearClickTimer_def timeout_add_def due_def)

theorem click_disambiguation_witness:
  "clickTimerId enabled = None
   \<and> (1000 :: real) + DOUBLE_CLICK_MS \<le> 1220
   \<and> (1100 :: real) < 1000 + DOUBLE_CLICK_MS
   \<and> (1000 :: real) \<le> 1100
   \<and> spawned (click_run [1000] 1220 enabled) = [''--toggle'']
   \<and> clickTimerId (click_run [1000] 1220 enabled) = None
   \<and> spawned (click_run [1000] 1100 enabled) = []
   \<and> spawned (click_run [1000, 1100] 5000 enabled) = [''--show'']
   \<and> clickTimerId (click_run [1000, 1100] 5000 enabled) = None"
  using click_disambiguation [of enabled 1000 1220 1100]
        click_disambiguation [of enabled 1000 1100 1100]
        click_disambiguation [of enabled 1000 5000 1100]
  by (simp add: enabled_def DOUBLE_CLICK_MS_def)

text \<open>
  Claim C6. Whenever the indicator is recomputed (the icon exists, and the clock reads at
  least 4000 ms past the epoch), the state shown follows the precedence recording, then
  error flash, then success flash, then idle: recording always wins; otherwise the error
  flash is shown when \<open>lastErrorAtMs\<close> is within the 4000 ms window, also when
  \<open>lastTranscriptAtMs\<close> is within the 3000 ms window; otherwise the success flash when
  \<open>lastTranscriptAtMs\<close> is within its window; otherwise idle.
\<close>

theorem indicator_precedence:
  assumes "indicatorIcon s \<noteq> None" "ERROR_FLASH_MS \<le> now"
  shows "visual_state (updateIndicator now s) = Some (spec_visual now s)"
proof -
  have "SUCCESS_FLASH_MS \<le> now"
    using assms(2) by (simp add: SUCCESS_FLASH_MS_def ERROR_FLASH_MS_def)
  then have "success_showing now s
      = spec_within_window now (lastTranscriptAtMs s) SUCCESS_FLASH_MS"
    by (simp add: success_showing_def age_window)
  moreover have "error_showing now s = spec_within_window now (lastErrorAtMs s) ERROR_FLASH_MS"
    using assms(2) by (simp add: error_showing_def age_window)
  ultimately show ?thesis
    using updateIndicator_visual [OF assms(1), of now] by (simp add: spec_visual_def)
qed

theorem indicator_precedence_witness:
  "indicatorIcon (enabled\<lparr>lastErrorAtMs := Some 9000, lastTranscriptAtMs := Some 9500\<rparr>) \<noteq> None
   \<and> ERROR_FLASH_MS \<le> 10000
   \<and> spec_within_window 10000 (Some 9500) SUCCESS_FLASH_MS
   \<and> visual_state
       (updateIndicator 10000
          (enabled\<lparr>lastErrorAtMs := Some 9000, lastTranscriptAtMs := Some 9500\<rparr>))
     = Some ErrorFlash"
  using indicator_precedence
          [of "enabled\<lparr>lastErrorAtMs := Some 9000, lastTranscriptAtMs := Some 9500\<rparr>" 10000]
  by (simp add: enabled_def spec_visual_def spec_within_window_def ERROR_FLASH_MS_def
      SUCCESS_FLASH_MS_def)

text \<open>
  Claim C7. After an update that shows a flash, a one-shot timer must be armed for the
  remaining time of the flash shown. The code chooses the delay from \<open>lastErrorAtMs\<close>
  whenever that field is set, also when the error flash is over and the success flash is
  the one shown: with an error 10000 ms old and a transcript 1000 ms old the indicator
  shows the success flash, the delay comes out as \<open>4000 - 10000\<close>, and no timer is armed,
  so nothing brings the indicator back to idle 2000 ms later. Where the flash shown is the
  one the delay is taken from, the timer is armed for the remaining time
  (\<open>status_timer_armed\<close>).
\<close>

theorem success_flash_without_timer:
  "visual_state (state_of (loadTrayState doc_old_error_new_transcript 1700000010000 enabled))
     = Some SuccessFlash
   \<and> nextDelay 1700000010000
       (state_of (loadTrayState doc_old_error_new_transcript 1700000010000 enabled))
     = Some (- 6000)
   \<and> statusTimerId (state_of (loadTrayState doc_old_error_new_transcript 1700000010000 enabled))
     = None"
  by code_simp

text \<open>
  Claim C9, as stated, fails: hiding the overlay stops the meter timer but does not touch
  the bars. After a recording read at full level and one meter tick, a not-recording read
  leaves the bars at the heights of that tick, not at the minimum height.
\<close>

theorem hide_leaves_bars:
  "\<not> ol_recording (overlay_loaded 2000 doc_not_recording)
   \<and> meterTimerId (state_of (loadOverlayState doc_not_recording 2000
        (meterTick (state_of (loadOverlayState doc_recording_loud 1000 enabled))))) = None
   \<and> bars (state_of (loadOverlayState doc_not_recording 2000
        (meterTick (state_of (loadOverlayState doc_recording_loud 1000 enabled)))))
     = [13, 14, 16, 17, 16, 16, 17, 16, 14, 13]
   \<and> bars (state_of (loadOverlayState doc_not_recording 2000
        (meterTick (state_of (loadOverlayState doc_recording_loud 1000 enabled)))))
     \<noteq> replicate BAR_COUNT BAR_MIN_HEIGHT"
  by code_simp

text \<open>
  Claim C9, amended. When a read is not recording, the overlay is hidden, the meter timer
  and the clock timer are removed, and the smoothed level and the target level are set
  to zero; the heights of the bars stay as the last tick set them.
\<close>

theorem hide_stops_meter:
  assumes "\<not> ol_recording (overlay_loaded now doc)"
  shows "meterTimerId (state_of (loadOverlayState doc now s)) = None
       \<and> clockTimerId (state_of (loadOverlayState doc now s)) = None
       \<and> \<not> recording (state_of (loadOverlayState doc now s))
       \<and> \<not> overlayVisible (state_of (loadOverlayState doc now s))
       \<and> level (state_of (loadOverlayState doc now s)) = 0
       \<and> levelTarget (state_of (loadOverlayState doc now s)) = 0
       \<and> bars (state_of (loadOverlayState doc now s)) = bars s"
  using assms by (simp add: loadOverlayState_def Let_def hideOverlay_effect)

theorem hide_stops_meter_witness:
  "\<not> ol_recording (overlay_loaded 2000 doc_not_recording)
   \<and> meterTimerId (state_of (loadOverlayState doc_not_recording 2000
        (meterTick (state_of (loadOverlayState doc_recording_loud 1000 enabled))))) = None
   \<and> level (state_of (loadOverlayState doc_not_recording 2000
        (meterTick (state_of (loadOverlayState doc_recording_loud 1000 enabled))))) = 0"
proof -
  have h: "\<not> ol_recording (overlay_loaded 2000 doc_not_recording)"
    by code_simp
  from h hide_stops_meter [OF h,
      of "meterTick (state_of (loadOverlayState doc_recording_loud 1000 enabled))"]
  show ?thesis by simp
qed

text \<open>
  Claim C10. After every meter tick, whatever the smoothed level and the target level
  were, every bar height lies between 10 and 26 inclusive: the level is clamped to
  \<open>[0, 1]\<close> before the heights are computed and every bar weight lies in \<open>[0, 1]\<close>. The
  number of bars does not change.
\<close>

theorem bar_heights_bounded:
  "(\<forall>h \<in> set (bars (meterTick s)). BAR_MIN_HEIGHT \<le> h \<and> h \<le> BAR_MAX_HEIGHT)
   \<and> (\<forall>w \<in> set BAR_WEIGHTS. 0 \<le> w \<and> w \<le> 1)
   \<and> BAR_MIN_HEIGHT = 10 \<and> BAR_MAX_HEIGHT = 26
   \<and> length (bars (meterTick s)) = length (bars s)"
proof -
  have "BAR_MIN_HEIGHT \<le> h \<and> h \<le> BAR_MAX_HEIGHT" if "h \<in> set (bars (meterTick s))" for h
  proof -
    from that obtain i where "h = bar_height (max 0 (min 1 (level (meterTick s)))) i"
      by (auto simp add: meterTick_def Let_def)
    then show ?thesis using bar_height_range [of "max 0 (min 1 (level (meterTick s)))" i]
      by simp
  qed
  then show ?thesis
    using weights_range
    by (simp add: BAR_MIN_HEIGHT_def BAR_MAX_HEIGHT_def meterTick_def Let_def)
qed

theorem bar_heights_bounded_witness:
  "17 \<in> set (bars (meterTick (enabled\<lparr>levelTarget := 1\<rparr>)))
   \<and> 1 \<in> set BAR_WEIGHTS
   \<and> BAR_MIN_HEIGHT \<le> 17 \<and> 17 \<le> BAR_MAX_HEIGHT"
proof -
  have h: "17 \<in> set (bars (meterTick (enabled\<lparr>levelTarget := 1\<rparr>)))" "1 \<in> set BAR_WEIGHTS"
    by code_simp+
  from h bar_heights_bounded [of "enabled\<lparr>levelTarget := 1\<rparr>"]
  show ?thesis by blast
qed

end
